theory Spec2Isabelle
  imports Complex_Main "HOL-Library.AList"
begin

section \<open>Data model of the orchestrator\<close>

text \<open>
  The orchestrator agent (\<^verbatim>\<open>src/agents/orchestrator\<close>) is modelled in its default
  configuration: no Cosmos DB endpoint is configured, so \<^verbatim>\<open>StateManager._container\<close>
  is \<^verbatim>\<open>None\<close> and every workflow lives in the in-memory dictionary
  \<^verbatim>\<open>StateManager._workflows\<close>.
\<close>

subsection \<open>Dynamically typed payloads\<close>

text \<open>
  Collaborator payloads are \<^verbatim>\<open>Dict[str, Any]\<close> values obtained from
  \<^verbatim>\<open>response.json()\<close>. A number is kept as a real (the code only ever tests a number
  for truthiness); a dictionary is an association list in insertion order, read with
  \<open>map_of\<close>.
\<close>

datatype json =
    JNull
  | JBool bool
  | JNum real
  | JStr string
  | JArr "json list"
  | JObj "(string \<times> json) list"

type_synonym dict = "(string \<times> json) list"

text \<open>Python truthiness (\<^verbatim>\<open>if x:\<close>, \<^verbatim>\<open>not x\<close>, \<^verbatim>\<open>x or y\<close>).\<close>

fun truthy :: "json \<Rightarrow> bool" where
  "truthy JNull = False"
| "truthy (JBool b) = b"
| "truthy (JNum n) = (n \<noteq> 0)"
| "truthy (JStr s) = (s \<noteq> [])"
| "truthy (JArr xs) = (xs \<noteq> [])"
| "truthy (JObj kvs) = (kvs \<noteq> [])"

text \<open>\<^verbatim>\<open>d.get(k, default)\<close> and \<^verbatim>\<open>k in d\<close> on a dictionary.\<close>

definition dict_get :: "dict \<Rightarrow> string \<Rightarrow> json \<Rightarrow> json" where
  "dict_get d k dflt = (case map_of d k of None \<Rightarrow> dflt | Some v \<Rightarrow> v)"

definition has_key :: "dict \<Rightarrow> string \<Rightarrow> bool" where
  "has_key d k = (map_of d k \<noteq> None)"

text \<open>The exceptions the engine can run into on a payload of the wrong shape.\<close>

datatype exn = TypeError | AttributeError

text \<open>\<^verbatim>\<open>x.get(k, default)\<close> on an arbitrary value: only a dict has \<^verbatim>\<open>get\<close>.\<close>

fun py_get :: "json \<Rightarrow> string \<Rightarrow> json \<Rightarrow> exn + json" where
  "py_get (JObj d) k dflt = Inr (dict_get d k dflt)"
| "py_get _ k dflt = Inl AttributeError"

text \<open>
  \<^verbatim>\<open>for x in v\<close>: a list yields its elements, a dict its keys, a string its characters;
  \<^verbatim>\<open>None\<close>, booleans and numbers are not iterable.
\<close>

fun py_iter :: "json \<Rightarrow> exn + json list" where
  "py_iter (JArr xs) = Inr xs"
| "py_iter (JObj kvs) = Inr (map (\<lambda>kv. JStr (fst kv)) kvs)"
| "py_iter (JStr s) = Inr (map (\<lambda>c. JStr [c]) s)"
| "py_iter _ = Inl TypeError"

fun is_dict :: "json \<Rightarrow> bool" where
  "is_dict (JObj d) = True"
| "is_dict _ = False"

subsection \<open>models.py\<close>

datatype WorkflowStatus =
  PENDING | SCANNING | ASSESSING | AWAITING_APPROVAL | REMEDIATING | COMPLETED | FAILED | CANCELLED

datatype WorkflowAction =
  SCAN | ASSESS | AUTO_REMEDIATE | REQUEST_APPROVAL | NOTIFY | COMPLETE

text \<open>
  \<^verbatim>\<open>WorkflowStep\<close>. Pydantic does not validate assignments, so \<^verbatim>\<open>error_message\<close> holds
  whatever the collaborator put under \<^verbatim>\<open>"error"\<close>; \<open>JNull\<close> is \<^verbatim>\<open>None\<close>. Time stamps
  are readings of the clock, in seconds.
\<close>

record WorkflowStep =
  step_id :: string
  step_action :: WorkflowAction
  step_status :: WorkflowStatus
  agent :: "string option"
  input_data :: dict
  output_data :: dict
  error_message :: json
  started_at :: "int option"
  step_completed_at :: "int option"

record Workflow =
  workflow_id :: string
  repository :: string
  branch :: string
  status :: WorkflowStatus
  current_step :: "string option"
  steps :: "WorkflowStep list"
  scan_id :: json
  assessment_id :: json
  remediation_ids :: "json list"
  total_vulnerabilities :: nat
  critical_count :: json
  high_count :: json
  auto_remediated :: json
  awaiting_approval :: nat
  created_at :: int
  updated_at :: int
  completed_at :: "int option"
  triggered_by :: string
  metadata :: dict

text \<open>The request body of \<^verbatim>\<open>POST /approve\<close> (\<^verbatim>\<open>models.ApprovalRequest\<close>).\<close>

record ApproveRequest =
  req_workflow_id :: string
  req_vulnerability_ids :: "string list"
  req_approved :: bool
  req_approver :: string
  req_comment :: "string option"

text \<open>The three messages a \<^verbatim>\<open>WorkflowResponse\<close> of these endpoints can carry.\<close>

datatype message = Workflow_cancelled | Remediation_rejected | Approved_remediations nat

record WorkflowResponse =
  resp_workflow_id :: string
  resp_status :: WorkflowStatus
  resp_message :: message
  resp_workflow :: "Workflow option"

subsection \<open>hitl_models.py\<close>

datatype ApprovalStatus = APPROVAL_PENDING | APPROVED | REJECTED | EXPIRED

datatype ApprovalType = REMEDIATION | DEPLOYMENT | EXCEPTION | ESCALATION

datatype AuditAction =
    SCAN_STARTED | SCAN_COMPLETED | VULNERABILITY_DETECTED | ASSESSMENT_COMPLETED
  | APPROVAL_REQUESTED | APPROVAL_GRANTED | APPROVAL_DENIED
  | REMEDIATION_STARTED | REMEDIATION_COMPLETED | REMEDIATION_FAILED
  | COMMENT_ADDED | EXCEPTION_GRANTED | WORKFLOW_COMPLETED

record ApprovalRequest =
  approval_id :: string
  approval_workflow_id :: string
  approval_type :: ApprovalType
  approval_status :: ApprovalStatus
  title :: string
  description :: string
  vulnerability_ids :: "string list"
  priority :: string
  risk_summary :: string
  recommended_action :: string
  requested_by :: string
  requested_at :: int
  expires_at :: "int option"
  resolved_by :: "string option"
  resolved_at :: "int option"
  resolution_comment :: "string option"

record AuditLogEntry =
  timestamp :: int
  entry_action :: AuditAction
  actor :: string
  entry_workflow_id :: "string option"
  entry_vulnerability_id :: "string option"
  entry_approval_id :: "string option"
  details :: dict
  success :: bool
  entry_error_message :: "string option"

subsection \<open>config.py\<close>

record Settings =
  auto_remediate_p3_p4 :: bool
  auto_remediate_p2 :: bool
  require_approval_p0_p1 :: bool
  workflow_timeout_seconds :: int
  slack_webhook_url :: "string option"

definition default_settings :: Settings where
  "default_settings =
     \<lparr>auto_remediate_p3_p4 = True, auto_remediate_p2 = False, require_approval_p0_p1 = True,
      workflow_timeout_seconds = 600, slack_webhook_url = None\<rparr>"

section \<open>Process state\<close>

text \<open>
  Python objects are shared by reference: the \<^verbatim>\<open>Workflow\<close> object a background execution
  unit holds is the very object stored in \<^verbatim>\<open>_workflows\<close> and the one
  \<^verbatim>\<open>get_workflow\<close> hands to a request handler. So \<^verbatim>\<open>Workflow\<close> objects live in a heap,
  and the dictionary maps a workflow id to a reference.

  The field \<open>trace\<close> is an observation log and nothing reads it: it records each request
  awaited from a collaborator (a point where the event loop may run other tasks) and each
  version of a workflow handed to \<^verbatim>\<open>_save_workflow\<close>.
\<close>

datatype event =
    TriggerScan string string json
  | GetScanResults json
  | Sleep int
  | Assess json string
  | RemediateBatch "json list" string string bool
  | Saved string WorkflowStatus "WorkflowStatus list"

record state =
  heap :: "nat \<Rightarrow> Workflow"
  next_ref :: nat
  workflows :: "string \<rightharpoonup> nat"
  approvals_store :: "(string \<times> ApprovalRequest) list"
  audit_entries :: "AuditLogEntry list"
  trace :: "event list"
  clock :: int

text \<open>\<^verbatim>\<open>datetime.utcnow()\<close> reads the clock.\<close>

definition utcnow :: "state \<Rightarrow> int" where
  "utcnow s = clock s"

text \<open>An attribute assignment \<^verbatim>\<open>workflow.f = v\<close> on the object behind a reference.\<close>

definition modify :: "nat \<Rightarrow> (Workflow \<Rightarrow> Workflow) \<Rightarrow> state \<Rightarrow> state" where
  "modify r f s = s\<lparr>heap := (heap s)(r := f (heap s r))\<rparr>"

section \<open>state\_manager.py\<close>

definition save_workflow :: "nat \<Rightarrow> state \<Rightarrow> state" where
  "save_workflow r s =
     s\<lparr>workflows := (workflows s)(workflow_id (heap s r) \<mapsto> r),
       trace := trace s @
         [Saved (workflow_id (heap s r)) (status (heap s r)) (map step_status (steps (heap s r)))]\<rparr>"

definition new_step :: "string \<Rightarrow> WorkflowAction \<Rightarrow> string \<Rightarrow> WorkflowStep" where
  "new_step sid act ag =
     \<lparr>step_id = sid, step_action = act, step_status = PENDING, agent = Some ag,
      input_data = [], output_data = [], error_message = JNull,
      started_at = None, step_completed_at = None\<rparr>"

definition initial_steps :: "WorkflowStep list" where
  "initial_steps =
     [new_step ''scan'' SCAN ''security-scanner'',
      new_step ''assess'' ASSESS ''risk-assessment'',
      new_step ''decide'' AUTO_REMEDIATE ''orchestrator'',
      new_step ''remediate'' AUTO_REMEDIATE ''auto-remediation'',
      new_step ''complete'' COMPLETE ''orchestrator'']"

text \<open>
  \<^verbatim>\<open>create_workflow\<close>: a fresh \<^verbatim>\<open>Workflow\<close> object with the pydantic defaults, the five
  steps and \<^verbatim>\<open>current_step = "scan"\<close>, saved under its id. It returns the new object.
\<close>

definition create_workflow ::
  "string \<Rightarrow> string \<Rightarrow> string \<Rightarrow> string \<Rightarrow> dict option \<Rightarrow> state \<Rightarrow> nat \<times> state" where
  "create_workflow wid repo br trig md s =
     (let r = next_ref s;
          wf = \<lparr>workflow_id = wid, repository = repo, branch = br, status = PENDING,
                current_step = Some ''scan'', steps = initial_steps,
                scan_id = JNull, assessment_id = JNull, remediation_ids = [],
                total_vulnerabilities = 0, critical_count = JNum 0, high_count = JNum 0,
                auto_remediated = JNum 0, awaiting_approval = 0,
                created_at = utcnow s, updated_at = utcnow s, completed_at = None,
                triggered_by = trig,
                metadata = (case md of None \<Rightarrow> [] | Some m \<Rightarrow> m)\<rparr>
      in (r, save_workflow r (s\<lparr>heap := (heap s)(r := wf), next_ref := Suc r\<rparr>)))"

definition get_workflow :: "string \<Rightarrow> state \<Rightarrow> nat option" where
  "get_workflow wid s = workflows s wid"

definition update_workflow :: "nat \<Rightarrow> state \<Rightarrow> state" where
  "update_workflow r s = save_workflow r (modify r (\<lambda>w. w\<lparr>updated_at := utcnow s\<rparr>) s)"

text \<open>
  The body of the loop of \<^verbatim>\<open>update_step\<close> on the step it stops at: the status is
  overwritten whatever it was; the output and the error message only when truthy.
\<close>

definition set_step ::
  "WorkflowStatus \<Rightarrow> dict option \<Rightarrow> json option \<Rightarrow> int \<Rightarrow> WorkflowStep \<Rightarrow> WorkflowStep" where
  "set_step st out err now step =
     (let step = step\<lparr>step_status := st\<rparr>;
          step = (case out of
                    Some d \<Rightarrow> if d \<noteq> [] then step\<lparr>output_data := d\<rparr> else step
                  | None \<Rightarrow> step);
          step = (case err of
                    Some e \<Rightarrow> if truthy e then step\<lparr>error_message := e\<rparr> else step
                  | None \<Rightarrow> step)
      in if st = SCANNING then step\<lparr>started_at := Some now\<rparr>
         else if st = COMPLETED \<or> st = FAILED then step\<lparr>step_completed_at := Some now\<rparr>
         else step)"

text \<open>\<^verbatim>\<open>for step in workflow.steps: if step.step_id == step_id: ...; break\<close>\<close>

fun update_first :: "string \<Rightarrow> (WorkflowStep \<Rightarrow> WorkflowStep) \<Rightarrow> WorkflowStep list \<Rightarrow> WorkflowStep list" where
  "update_first sid f [] = []"
| "update_first sid f (x # xs) = (if step_id x = sid then f x # xs else x # update_first sid f xs)"

definition update_step ::
  "string \<Rightarrow> string \<Rightarrow> WorkflowStatus \<Rightarrow> dict option \<Rightarrow> json option \<Rightarrow> state \<Rightarrow> state" where
  "update_step wid sid st out err s =
     (case get_workflow wid s of
        None \<Rightarrow> s
      | Some r \<Rightarrow>
          update_workflow r
            (modify r (\<lambda>w. w\<lparr>steps := update_first sid (set_step st out err (utcnow s)) (steps w)\<rparr>) s))"

text \<open>\<^verbatim>\<open>complete_workflow(workflow_id, status)\<close>\<close>

definition complete_workflow :: "string \<Rightarrow> WorkflowStatus \<Rightarrow> state \<Rightarrow> state" where
  "complete_workflow wid st s =
     (case get_workflow wid s of
        None \<Rightarrow> s
      | Some r \<Rightarrow>
          update_workflow r
            (modify r (\<lambda>w. w\<lparr>status := st, completed_at := Some (utcnow s), current_step := None\<rparr>) s))"

text \<open>\<^verbatim>\<open>next(s for s in workflow.steps if s.step_id == sid, None)\<close>\<close>

definition find_step :: "string \<Rightarrow> Workflow \<Rightarrow> WorkflowStep option" where
  "find_step sid w = find (\<lambda>st. step_id st = sid) (steps w)"

section \<open>workflow\_engine.py: cancellation\<close>

text \<open>
  \<^verbatim>\<open>WorkflowEngine.cancel_workflow\<close> returns \<^verbatim>\<open>None\<close> for an unknown id and the workflow
  otherwise.
\<close>

definition cancel_workflow :: "string \<Rightarrow> state \<Rightarrow> nat option \<times> state" where
  "cancel_workflow wid s =
     (case get_workflow wid s of
        None \<Rightarrow> (None, s)
      | Some r \<Rightarrow>
          (Some r,
           update_workflow r
             (modify r (\<lambda>w. w\<lparr>status := CANCELLED, completed_at := Some (utcnow s)\<rparr>) s)))"

section \<open>agent\_client.py\<close>

text \<open>
  The collaborators are the environment. A \<open>world\<close> fixes what each of them answers: the
  scan trigger, the \<open>n\<close>-th request for the scan results, the assessment and the batch
  remediation. Each client method takes \<^verbatim>\<open>Dict[str, Any]\<close> as its result type and turns a
  transport failure or a status other than 200 into \<^verbatim>\<open>{"error": ...}\<close>, so an answer is
  always a dictionary. While a request is awaited the event loop runs other tasks (request
  handlers, other workflows): \<open>others w e\<close> is what they do to the process state during
  the wait \<open>e\<close>.
\<close>

record world =
  trigger_scan_result :: dict
  get_scan_results_result :: "nat \<Rightarrow> dict"
  assess_result :: dict
  remediate_result :: dict
  others :: "event \<Rightarrow> state \<Rightarrow> state"

definition await :: "world \<Rightarrow> event \<Rightarrow> state \<Rightarrow> state" where
  "await w e s = others w e (s\<lparr>trace := trace s @ [e]\<rparr>)"

text \<open>A world in which nothing else runs while the engine waits.\<close>

definition quiet :: "dict \<Rightarrow> (nat \<Rightarrow> dict) \<Rightarrow> dict \<Rightarrow> dict \<Rightarrow> world" where
  "quiet t p a m =
     \<lparr>trigger_scan_result = t, get_scan_results_result = p, assess_result = a,
      remediate_result = m, others = (\<lambda>e s. s)\<rparr>"

definition trigger_scan :: "world \<Rightarrow> string \<Rightarrow> string \<Rightarrow> json \<Rightarrow> state \<Rightarrow> dict \<times> state" where
  "trigger_scan w repo br scan_types s =
     (trigger_scan_result w, await w (TriggerScan repo br scan_types) s)"

definition get_scan_results :: "world \<Rightarrow> json \<Rightarrow> nat \<Rightarrow> state \<Rightarrow> dict \<times> state" where
  "get_scan_results w sid n s = (get_scan_results_result w n, await w (GetScanResults sid) s)"

text \<open>
  \<^verbatim>\<open>poll_scan_completion\<close>. The loop need not end (a poll interval of zero, a scan that
  never finishes), so it is a partial function: \<open>None\<close> is a loop that runs forever.
  \<open>n\<close> counts the requests made so far.
\<close>

partial_function (option) poll_loop ::
  "world \<Rightarrow> json \<Rightarrow> int \<Rightarrow> int \<Rightarrow> int \<Rightarrow> nat \<Rightarrow> state \<Rightarrow> (dict \<times> state) option" where
  "poll_loop w sid max_wait poll_interval elapsed n s =
     (if elapsed < max_wait then
        (case get_scan_results w sid n s of
           (result, s1) \<Rightarrow>
             if dict_get result ''status'' (JStr ''unknown'') = JStr ''completed'' then Some (result, s1)
             else if dict_get result ''status'' (JStr ''unknown'') = JStr ''failed'' then Some (result, s1)
             else poll_loop w sid max_wait poll_interval (elapsed + poll_interval) (Suc n)
                    (await w (Sleep poll_interval) s1))
      else Some ([(''error'', JStr ''Polling timeout''), (''status'', JStr ''timeout'')], s))"

definition poll_scan_completion ::
  "world \<Rightarrow> json \<Rightarrow> int \<Rightarrow> int \<Rightarrow> state \<Rightarrow> (dict \<times> state) option" where
  "poll_scan_completion w sid max_wait poll_interval s =
     poll_loop w sid max_wait poll_interval 0 0 s"

text \<open>\<^verbatim>\<open>len(x)\<close> is defined on strings, lists and dicts only.\<close>

fun has_len :: "json \<Rightarrow> bool" where
  "has_len (JStr s) = True"
| "has_len (JArr xs) = True"
| "has_len (JObj kvs) = True"
| "has_len _ = False"

text \<open>
  \<^verbatim>\<open>assess_vulnerabilities\<close> logs \<^verbatim>\<open>len(vulnerabilities)\<close> before it enters its
  \<^verbatim>\<open>try\<close> block.
\<close>

definition assess_vulnerabilities ::
  "world \<Rightarrow> json \<Rightarrow> string \<Rightarrow> state \<Rightarrow> exn + dict \<times> state" where
  "assess_vulnerabilities w vulns repo s =
     (if has_len vulns then Inr (assess_result w, await w (Assess vulns repo) s)
      else Inl TypeError)"

definition remediate_batch ::
  "world \<Rightarrow> json list \<Rightarrow> string \<Rightarrow> string \<Rightarrow> bool \<Rightarrow> state \<Rightarrow> dict \<times> state" where
  "remediate_batch w vulns repo br pr s =
     (remediate_result w, await w (RemediateBatch vulns repo br pr) s)"

section \<open>workflow\_engine.py: the stages\<close>

text \<open>
  A stage either returns (the workflow it returns is always the object it was given) or
  raises; a raise keeps the assignments made before it.
\<close>

datatype outcome = Returns state | Raises exn state

text \<open>\<^verbatim>\<open>_extract_vulnerabilities\<close>: the dicts found under each result's \<^verbatim>\<open>"vulnerabilities"\<close>.\<close>

fun extract_from :: "json list \<Rightarrow> exn + json list" where
  "extract_from [] = Inr []"
| "extract_from (JObj d # rest) =
     (case py_iter (dict_get d ''vulnerabilities'' (JArr [])) of
        Inl e \<Rightarrow> Inl e
      | Inr vulns \<Rightarrow>
          (case extract_from rest of
             Inl e \<Rightarrow> Inl e
           | Inr found \<Rightarrow> Inr (filter is_dict vulns @ found)))"
| "extract_from (x # rest) = extract_from rest"

definition extract_vulnerabilities :: "dict \<Rightarrow> exn + json list" where
  "extract_vulnerabilities scan_result =
     (case py_iter (dict_get scan_result ''results'' (JArr [])) of
        Inl e \<Rightarrow> Inl e
      | Inr results \<Rightarrow> extract_from results)"

text \<open>\<^verbatim>\<open>_execute_scan\<close>; the poll interval is the default of \<^verbatim>\<open>poll_scan_completion\<close>, 5.\<close>

definition execute_scan :: "Settings \<Rightarrow> world \<Rightarrow> nat \<Rightarrow> state \<Rightarrow> outcome option" where
  "execute_scan cfg w r s0 =
     (let s1 = modify r (\<lambda>wf. wf\<lparr>status := SCANNING\<rparr>) s0;
          s2 = update_step (workflow_id (heap s1 r)) ''scan'' SCANNING None None s1;
          scan_types = dict_get (metadata (heap s2 r)) ''scan_types'' (JArr [])
      in case trigger_scan w (repository (heap s2 r)) (branch (heap s2 r)) scan_types s2 of
           (scan_result, s3) \<Rightarrow>
             if has_key scan_result ''error'' then
               (let s4 = modify r (\<lambda>wf. wf\<lparr>status := FAILED\<rparr>) s3
                in Some (Returns
                     (update_step (workflow_id (heap s4 r)) ''scan'' FAILED None
                        (Some (dict_get scan_result ''error'' JNull)) s4)))
             else
               (let sid = dict_get scan_result ''scan_id'' JNull;
                    s4 = modify r (\<lambda>wf. wf\<lparr>scan_id := sid\<rparr>) s3
                in case poll_scan_completion w sid (workflow_timeout_seconds cfg) 5 s4 of
                     None \<Rightarrow> None
                   | Some (final_result, s5) \<Rightarrow>
                       if dict_get final_result ''status'' JNull = JStr ''completed'' then
                         (case extract_vulnerabilities final_result of
                            Inl e \<Rightarrow> Some (Raises e s5)
                          | Inr vulnerabilities \<Rightarrow>
                              (let s6 = modify r
                                     (\<lambda>wf. wf\<lparr>total_vulnerabilities := length vulnerabilities\<rparr>) s5;
                                   s7 = update_step (workflow_id (heap s6 r)) ''scan'' COMPLETED
                                     (Some [(''scan_id'', sid),
                                            (''vulnerability_count'', JNum (real (length vulnerabilities))),
                                            (''vulnerabilities'', JArr vulnerabilities)])
                                     None s6
                               in Some (Returns (update_workflow r s7))))
                       else
                         (let s6 = modify r (\<lambda>wf. wf\<lparr>status := FAILED\<rparr>) s5;
                              s7 = update_step (workflow_id (heap s6 r)) ''scan'' FAILED None
                                     (Some (dict_get final_result ''error'' (JStr ''Scan failed''))) s6
                          in Some (Returns (update_workflow r s7)))))"

text \<open>\<^verbatim>\<open>_execute_assessment\<close>; the step is marked \<^verbatim>\<open>SCANNING\<close> while in progress.\<close>

definition execute_assessment :: "world \<Rightarrow> nat \<Rightarrow> state \<Rightarrow> outcome" where
  "execute_assessment w r s0 =
     (let s1 = modify r (\<lambda>wf. wf\<lparr>status := ASSESSING\<rparr>) s0;
          s2 = update_step (workflow_id (heap s1 r)) ''assess'' SCANNING None None s1
      in case find_step ''scan'' (heap s2 r) of
           None \<Rightarrow> Returns (modify r (\<lambda>wf. wf\<lparr>status := FAILED\<rparr>) s2)
         | Some scan_step \<Rightarrow>
             if output_data scan_step = [] then Returns (modify r (\<lambda>wf. wf\<lparr>status := FAILED\<rparr>) s2)
             else
               (let vulnerabilities = dict_get (output_data scan_step) ''vulnerabilities'' (JArr [])
                in if \<not> truthy vulnerabilities then
                     Returns (update_workflow r
                       (update_step (workflow_id (heap s2 r)) ''assess'' COMPLETED
                          (Some [(''assessments'', JArr []), (''message'', JStr ''No vulnerabilities'')])
                          None s2))
                   else
                     (case assess_vulnerabilities w vulnerabilities (repository (heap s2 r)) s2 of
                        Inl e \<Rightarrow> Raises e s2
                      | Inr (assessment_result, s3) \<Rightarrow>
                          if has_key assessment_result ''error'' then
                            (let s4 = modify r (\<lambda>wf. wf\<lparr>status := FAILED\<rparr>) s3
                             in Returns
                                  (update_step (workflow_id (heap s4 r)) ''assess'' FAILED None
                                     (Some (dict_get assessment_result ''error'' JNull)) s4))
                          else
                            (let aid = dict_get assessment_result ''assessment_id'' JNull;
                                 s4 = modify r (\<lambda>wf. wf\<lparr>assessment_id := aid\<rparr>) s3;
                                 assessments = dict_get assessment_result ''assessments'' (JArr []);
                                 summary = dict_get assessment_result ''summary'' (JObj [])
                             in case py_get summary ''P0'' (JNum 0) of
                                  Inl e \<Rightarrow> Raises e s4
                                | Inr p0 \<Rightarrow>
                                    (let s5 = modify r (\<lambda>wf. wf\<lparr>critical_count := p0\<rparr>) s4
                                     in case py_get summary ''P1'' (JNum 0) of
                                          Inl e \<Rightarrow> Raises e s5
                                        | Inr p1 \<Rightarrow>
                                            (let s6 = modify r (\<lambda>wf. wf\<lparr>high_count := p1\<rparr>) s5;
                                                 s7 = update_step (workflow_id (heap s6 r)) ''assess''
                                                        COMPLETED
                                                        (Some [(''assessment_id'', aid),
                                                               (''assessments'', assessments),
                                                               (''summary'', summary)])
                                                        None s6
                                             in Returns (update_workflow r s7)))))))"

text \<open>
  The loop of \<^verbatim>\<open>_execute_remediation_decisions\<close> over the assessments, with its two
  lists; \<open>arc\<close> is \<^verbatim>\<open>auto_remediate_config\<close>. An assessment that is not a dict has no
  \<^verbatim>\<open>get\<close>, and neither has a \<^verbatim>\<open>"risk_score"\<close> that is not one.
\<close>

fun categorize ::
  "Settings \<Rightarrow> json \<Rightarrow> json list \<Rightarrow> json list \<Rightarrow> json list \<Rightarrow> exn + json list \<times> json list" where
  "categorize cfg arc [] to_auto_remediate to_await_approval =
     Inr (to_auto_remediate, to_await_approval)"
| "categorize cfg arc (JObj a # rest) to_auto_remediate to_await_approval =
     (case py_get (dict_get a ''risk_score'' (JObj [])) ''priority'' (JStr ''P2'') of
        Inl e \<Rightarrow> Inl e
      | Inr prio \<Rightarrow>
          (let vuln = JObj [(''id'', dict_get a ''vulnerability_id'' JNull),
                            (''cve_id'', dict_get a ''cve_id'' JNull),
                            (''title'', dict_get a ''title'' JNull),
                            (''severity'', dict_get a ''severity'' JNull),
                            (''priority'', prio),
                            (''cvss_score'', dict_get a ''cvss_score'' JNull)]
           in if prio = JStr ''P0'' \<or> prio = JStr ''P1'' then
                (if require_approval_p0_p1 cfg
                 then categorize cfg arc rest to_auto_remediate (to_await_approval @ [vuln])
                 else categorize cfg arc rest (to_auto_remediate @ [vuln]) to_await_approval)
              else if prio = JStr ''P2'' then
                (if auto_remediate_p2 cfg
                 then categorize cfg arc rest (to_auto_remediate @ [vuln]) to_await_approval
                 else categorize cfg arc rest to_auto_remediate (to_await_approval @ [vuln]))
              else if prio = JStr ''P3'' \<or> prio = JStr ''P4'' then
                (if auto_remediate_p3_p4 cfg \<and> truthy arc
                 then categorize cfg arc rest (to_auto_remediate @ [vuln]) to_await_approval
                 else categorize cfg arc rest to_auto_remediate to_await_approval)
              else categorize cfg arc rest to_auto_remediate to_await_approval))"
| "categorize cfg arc (x # rest) to_auto_remediate to_await_approval = Inl AttributeError"

text \<open>
  \<^verbatim>\<open>_send_notification\<close> returns at once without a Slack webhook and only writes a log
  line with one: it leaves the process state as it is.
\<close>

definition send_notification :: "Settings \<Rightarrow> nat \<Rightarrow> json list \<Rightarrow> state \<Rightarrow> state" where
  "send_notification cfg r vulns s = s"

text \<open>\<^verbatim>\<open>_execute_remediation_decisions\<close>\<close>

definition execute_remediation_decisions :: "Settings \<Rightarrow> world \<Rightarrow> nat \<Rightarrow> state \<Rightarrow> outcome" where
  "execute_remediation_decisions cfg w r s0 =
     (let s1 = modify r (\<lambda>wf. wf\<lparr>status := REMEDIATING\<rparr>) s0
      in case find_step ''assess'' (heap s1 r) of
           None \<Rightarrow> Returns s1
         | Some assess_step \<Rightarrow>
             if output_data assess_step = [] then Returns s1
             else
               (let assessments = dict_get (output_data assess_step) ''assessments'' (JArr [])
                in if \<not> truthy assessments then Returns s1
                   else
                     (let arc = dict_get (metadata (heap s1 r)) ''auto_remediate'' (JBool True)
                      in case py_iter assessments of
                           Inl e \<Rightarrow> Raises e s1
                         | Inr items \<Rightarrow>
                             (case categorize cfg arc items [] [] of
                                Inl e \<Rightarrow> Raises e s1
                              | Inr (to_auto_remediate, to_await_approval) \<Rightarrow>
                                  (let s2 =
                                     (if to_auto_remediate \<noteq> [] then
                                        (case remediate_batch w to_auto_remediate
                                                (repository (heap s1 r)) (branch (heap s1 r)) False s1 of
                                           (remediation_result, s) \<Rightarrow>
                                             if \<not> has_key remediation_result ''error'' then
                                               modify r (\<lambda>wf. wf
                                                 \<lparr>auto_remediated :=
                                                    dict_get remediation_result ''fixes_generated'' (JNum 0),
                                                  remediation_ids := remediation_ids wf @
                                                    [dict_get remediation_result ''batch_id'' (JStr [])]\<rparr>) s
                                             else s)
                                      else s1);
                                     s3 =
                                     (if to_await_approval \<noteq> [] then
                                        (let s = modify r
                                               (\<lambda>wf. wf\<lparr>awaiting_approval := length to_await_approval\<rparr>) s2
                                         in if awaiting_approval (heap s r) > 0 then
                                              (let s' = modify r (\<lambda>wf. wf\<lparr>status := AWAITING_APPROVAL\<rparr>) s
                                               in if truthy (dict_get (metadata (heap s' r)) ''notify'' (JBool True))
                                                  then send_notification cfg r to_await_approval s'
                                                  else s')
                                            else s)
                                      else s2);
                                     s4 = update_step (workflow_id (heap s3 r)) ''remediate''
                                            (if to_await_approval = [] then COMPLETED else AWAITING_APPROVAL)
                                            (Some [(''auto_remediated'', JNum (real (length to_auto_remediate))),
                                                   (''awaiting_approval'', JNum (real (length to_await_approval)))])
                                            None s3
                                   in Returns (update_workflow r s4))))))"

text \<open>\<^verbatim>\<open>_complete_workflow\<close>\<close>

definition engine_complete_workflow :: "nat \<Rightarrow> state \<Rightarrow> state" where
  "engine_complete_workflow r s =
     (if status (heap s r) \<noteq> AWAITING_APPROVAL
      then complete_workflow (workflow_id (heap s r)) COMPLETED s
      else s)"

text \<open>The \<^verbatim>\<open>except Exception\<close> block of \<^verbatim>\<open>_execute_workflow\<close>.\<close>

definition on_exception :: "nat \<Rightarrow> state \<Rightarrow> state" where
  "on_exception r s = update_workflow r (modify r (\<lambda>wf. wf\<lparr>status := FAILED\<rparr>) s)"

text \<open>
  \<^verbatim>\<open>_execute_workflow\<close>, the background execution unit of one workflow. The result is the
  process state when the unit ends, \<open>None\<close> when it never does.
\<close>

definition execute_workflow :: "Settings \<Rightarrow> world \<Rightarrow> nat \<Rightarrow> state \<Rightarrow> state option" where
  "execute_workflow cfg w r s =
     (case execute_scan cfg w r s of
        None \<Rightarrow> None
      | Some (Raises e s1) \<Rightarrow> Some (on_exception r s1)
      | Some (Returns s1) \<Rightarrow>
          if status (heap s1 r) = FAILED then Some s1
          else
            (case execute_assessment w r s1 of
               Raises e s2 \<Rightarrow> Some (on_exception r s2)
             | Returns s2 \<Rightarrow>
                 if status (heap s2 r) = FAILED then Some s2
                 else
                   (case execute_remediation_decisions cfg w r s2 of
                      Raises e s3 \<Rightarrow> Some (on_exception r s3)
                    | Returns s3 \<Rightarrow> Some (engine_complete_workflow r s3))))"

text \<open>
  \<^verbatim>\<open>start_workflow\<close> creates the workflow under a fresh uuid \<open>wid\<close> and returns it; the
  execution unit it schedules is \<open>execute_workflow\<close> on the returned object.
\<close>

record WorkflowRequest =
  wr_repository :: string
  wr_branch :: string
  wr_scan_types :: "string list"
  wr_auto_remediate :: bool
  wr_notify :: bool

definition start_workflow :: "string \<Rightarrow> WorkflowRequest \<Rightarrow> string \<Rightarrow> state \<Rightarrow> nat \<times> state" where
  "start_workflow wid req trig s =
     create_workflow wid (wr_repository req) (wr_branch req) trig
       (Some [(''scan_types'', JArr (map JStr (wr_scan_types req))),
              (''auto_remediate'', JBool (wr_auto_remediate req)),
              (''notify'', JBool (wr_notify req))]) s"

section \<open>workflow\_engine.py and main.py: approval\<close>

text \<open>
  The list comprehension of \<^verbatim>\<open>approve_remediation\<close>: the assessments whose
  \<^verbatim>\<open>"vulnerability_id"\<close> is one of the approved ids.
\<close>

fun select_approved :: "string list \<Rightarrow> json list \<Rightarrow> exn + json list" where
  "select_approved ids [] = Inr []"
| "select_approved ids (JObj a # rest) =
     (case select_approved ids rest of
        Inl e \<Rightarrow> Inl e
      | Inr chosen \<Rightarrow>
          if dict_get a ''vulnerability_id'' JNull \<in> JStr ` set ids
          then Inr (JObj [(''id'', dict_get a ''vulnerability_id'' JNull),
                          (''cve_id'', dict_get a ''cve_id'' JNull),
                          (''title'', dict_get a ''title'' JNull),
                          (''severity'', dict_get a ''severity'' JNull)] # chosen)
          else Inr chosen)"
| "select_approved ids (x # rest) = Inl AttributeError"

text \<open>
  \<^verbatim>\<open>WorkflowEngine.approve_remediation\<close>: \<^verbatim>\<open>None\<close> for an unknown workflow, the workflow
  as it is when it does not await approval, and otherwise the workflow completed.
\<close>

definition approve_remediation ::
  "world \<Rightarrow> string \<Rightarrow> string list \<Rightarrow> string \<Rightarrow> state \<Rightarrow> (exn + nat option) \<times> state" where
  "approve_remediation w wid ids approver s =
     (case get_workflow wid s of
        None \<Rightarrow> (Inr None, s)
      | Some r \<Rightarrow>
          if status (heap s r) \<noteq> AWAITING_APPROVAL then (Inr (Some r), s)
          else
            (let submitted =
               (case find_step ''assess'' (heap s r) of
                  None \<Rightarrow> Inr s
                | Some assess_step \<Rightarrow>
                    if output_data assess_step = [] then Inr s
                    else
                      (case py_iter (dict_get (output_data assess_step) ''assessments'' (JArr [])) of
                         Inl e \<Rightarrow> Inl e
                       | Inr items \<Rightarrow>
                           (case select_approved ids items of
                              Inl e \<Rightarrow> Inl e
                            | Inr to_remediate \<Rightarrow>
                                if to_remediate \<noteq> [] then
                                  Inr (snd (remediate_batch w to_remediate
                                              (repository (heap s r)) (branch (heap s r)) False s))
                                else Inr s)))
             in case submitted of
                  Inl e \<Rightarrow> (Inl e, s)
                | Inr s1 \<Rightarrow>
                    (Inr (Some r),
                     update_workflow r
                       (modify r (\<lambda>wf. wf\<lparr>awaiting_approval := 0, status := COMPLETED,
                                           completed_at := Some (utcnow s1)\<rparr>) s1))))"

text \<open>
  What an endpoint gives back: a response body, an \<^verbatim>\<open>HTTPException\<close> with its status
  code, or an exception that escapes the handler.
\<close>

datatype 'a reply = Ok 'a | HTTPException nat string | Escapes exn

definition workflow_response :: "message \<Rightarrow> nat \<Rightarrow> state \<Rightarrow> WorkflowResponse" where
  "workflow_response msg r s =
     \<lparr>resp_workflow_id = workflow_id (heap s r), resp_status = status (heap s r),
      resp_message = msg, resp_workflow = Some (heap s r)\<rparr>"

text \<open>\<^verbatim>\<open>POST /approve\<close> (\<^verbatim>\<open>main.approve_remediation\<close>).\<close>

definition approve_endpoint :: "world \<Rightarrow> ApproveRequest \<Rightarrow> state \<Rightarrow> WorkflowResponse reply \<times> state" where
  "approve_endpoint w req s =
     (if \<not> req_approved req then
        (case get_workflow (req_workflow_id req) s of
           Some r \<Rightarrow>
             (let s1 = update_workflow r
                         (modify r (\<lambda>wf. wf\<lparr>status := COMPLETED, awaiting_approval := 0\<rparr>) s)
              in (Ok \<lparr>resp_workflow_id = req_workflow_id req, resp_status = COMPLETED,
                      resp_message = Remediation_rejected, resp_workflow = Some (heap s1 r)\<rparr>, s1))
         | None \<Rightarrow>
             (Ok \<lparr>resp_workflow_id = req_workflow_id req, resp_status = COMPLETED,
                  resp_message = Remediation_rejected, resp_workflow = None\<rparr>, s))
      else
        (case approve_remediation w (req_workflow_id req) (req_vulnerability_ids req)
                (req_approver req) s of
           (Inl e, s1) \<Rightarrow> (Escapes e, s1)
         | (Inr None, s1) \<Rightarrow> (HTTPException 404 ''Workflow not found'', s1)
         | (Inr (Some r), s1) \<Rightarrow>
             (Ok (workflow_response (Approved_remediations (length (req_vulnerability_ids req))) r s1),
              s1)))"

text \<open>\<^verbatim>\<open>POST /workflow/{workflow_id}/cancel\<close> (\<^verbatim>\<open>main.cancel_workflow\<close>).\<close>

definition cancel_endpoint :: "string \<Rightarrow> state \<Rightarrow> WorkflowResponse reply \<times> state" where
  "cancel_endpoint wid s =
     (case cancel_workflow wid s of
        (None, s1) \<Rightarrow> (HTTPException 404 ''Workflow not found'', s1)
      | (Some r, s1) \<Rightarrow> (Ok (workflow_response Workflow_cancelled r s1), s1))"

section \<open>audit\_log.py\<close>

text \<open>
  \<^verbatim>\<open>AuditLogService.log\<close> appends one entry (its random \<^verbatim>\<open>entry_id\<close> is left out of the
  model); \<^verbatim>\<open>ip_address\<close> and \<^verbatim>\<open>user_agent\<close> are never passed by the callers below.
\<close>

definition audit_log ::
  "AuditAction \<Rightarrow> string \<Rightarrow> string option \<Rightarrow> string option \<Rightarrow> string option \<Rightarrow> dict \<Rightarrow> bool \<Rightarrow>
   string option \<Rightarrow> state \<Rightarrow> state" where
  "audit_log act who wid vid aid dets ok err s =
     s\<lparr>audit_entries := audit_entries s @
        [\<lparr>timestamp = utcnow s, entry_action = act, actor = who, entry_workflow_id = wid,
          entry_vulnerability_id = vid, entry_approval_id = aid, details = dets,
          success = ok, entry_error_message = err\<rparr>]\<rparr>"

definition log_approval_requested :: "string \<Rightarrow> string \<Rightarrow> string \<Rightarrow> nat \<Rightarrow> state \<Rightarrow> state" where
  "log_approval_requested wid aid prio n s =
     audit_log APPROVAL_REQUESTED ''orchestrator'' (Some wid) None (Some aid)
       [(''priority'', JStr prio), (''vulnerability_count'', JNum (real n))] True None s"

definition log_approval_decision ::
  "string \<Rightarrow> string \<Rightarrow> bool \<Rightarrow> string \<Rightarrow> string option \<Rightarrow> state \<Rightarrow> state" where
  "log_approval_decision aid wid approved who comment s =
     audit_log (if approved then APPROVAL_GRANTED else APPROVAL_DENIED) who (Some wid) None (Some aid)
       [(''decision'', JStr (if approved then ''approved'' else ''rejected'')),
        (''comment'', (case comment of None \<Rightarrow> JNull | Some c \<Rightarrow> JStr c))] True None s"

section \<open>hitl\_api.py\<close>

text \<open>
  The module-level dictionary \<^verbatim>\<open>approvals_store\<close> is the field \<open>approvals_store\<close> of
  the process state, an association list in insertion order with distinct keys.
\<close>

record CreateApprovalRequest =
  car_workflow_id :: string
  car_title :: string
  car_description :: string
  car_vulnerability_ids :: "string list"
  car_priority :: string
  car_risk_summary :: string
  car_recommended_action :: string
  car_requested_by :: string
  car_expires_in_hours :: int

record ApprovalDecision =
  dec_approved :: bool
  dec_resolver :: string
  dec_comment :: "string option"

record DecisionReply =
  reply_approval_id :: string
  reply_status :: ApprovalStatus
  reply_message :: string

text \<open>
  \<^verbatim>\<open>create_approval\<close> under the fresh uuid \<open>aid\<close>; the notification it then sends does
  not touch the process state. It answers with the new id.
\<close>

definition create_approval :: "string \<Rightarrow> CreateApprovalRequest \<Rightarrow> state \<Rightarrow> string \<times> state" where
  "create_approval aid req s =
     (let approval =
            \<lparr>approval_id = aid, approval_workflow_id = car_workflow_id req,
             approval_type = REMEDIATION, approval_status = APPROVAL_PENDING,
             title = car_title req, description = car_description req,
             vulnerability_ids = car_vulnerability_ids req, priority = car_priority req,
             risk_summary = car_risk_summary req,
             recommended_action = car_recommended_action req,
             requested_by = car_requested_by req, requested_at = utcnow s,
             expires_at = Some (utcnow s + 3600 * car_expires_in_hours req),
             resolved_by = None, resolved_at = None, resolution_comment = None\<rparr>;
          s1 = s\<lparr>approvals_store := AList.update aid approval (approvals_store s)\<rparr>
      in (aid, log_approval_requested (car_workflow_id req) aid (car_priority req)
                 (length (car_vulnerability_ids req)) s1))"

text \<open>
  The expiry check of \<^verbatim>\<open>get_pending_approvals\<close> on one stored approval: a pending
  approval whose \<^verbatim>\<open>expires_at\<close> lies before \<open>now\<close> becomes \<^verbatim>\<open>EXPIRED\<close>.
\<close>

definition expire :: "int \<Rightarrow> ApprovalRequest \<Rightarrow> ApprovalRequest" where
  "expire now a =
     (if approval_status a = APPROVAL_PENDING \<and> (case expires_at a of None \<Rightarrow> False | Some t \<Rightarrow> t < now)
      then a\<lparr>approval_status := EXPIRED\<rparr> else a)"

text \<open>
  \<^verbatim>\<open>get_pending_approvals\<close>: the approvals still pending after the expiry check, latest
  request first (\<^verbatim>\<open>sorted(..., reverse=True)\<close> keeps equal keys in their order).
\<close>

definition get_pending_approvals :: "state \<Rightarrow> ApprovalRequest list \<times> state" where
  "get_pending_approvals s =
     (let store = map (\<lambda>(k, a). (k, expire (utcnow s) a)) (approvals_store s);
          pending = filter (\<lambda>a. approval_status a = APPROVAL_PENDING) (map snd store)
      in (rev (sort_key requested_at (rev pending)), s\<lparr>approvals_store := store\<rparr>))"

definition status_value :: "ApprovalStatus \<Rightarrow> string" where
  "status_value st =
     (case st of APPROVAL_PENDING \<Rightarrow> ''pending'' | APPROVED \<Rightarrow> ''approved''
      | REJECTED \<Rightarrow> ''rejected'' | EXPIRED \<Rightarrow> ''expired'')"

text \<open>\<^verbatim>\<open>decide_approval\<close>: 404 for an unknown id, 400 unless the stored status is pending.\<close>

definition decide_approval ::
  "string \<Rightarrow> ApprovalDecision \<Rightarrow> state \<Rightarrow> DecisionReply reply \<times> state" where
  "decide_approval aid decision s =
     (case map_of (approvals_store s) aid of
        None \<Rightarrow> (HTTPException 404 ''Approval not found'', s)
      | Some approval \<Rightarrow>
          if approval_status approval \<noteq> APPROVAL_PENDING then
            (HTTPException 400 (''Approval already '' @ status_value (approval_status approval)), s)
          else
            (let approval' = approval
                   \<lparr>approval_status := (if dec_approved decision then APPROVED else REJECTED),
                    resolved_by := Some (dec_resolver decision),
                    resolved_at := Some (utcnow s),
                    resolution_comment := dec_comment decision\<rparr>;
                 s1 = s\<lparr>approvals_store := AList.update aid approval' (approvals_store s)\<rparr>;
                 s2 = log_approval_decision aid (approval_workflow_id approval')
                        (dec_approved decision) (dec_resolver decision) (dec_comment decision) s1
             in (Ok \<lparr>reply_approval_id = aid, reply_status = approval_status approval',
                     reply_message = ''Approval '' @
                       (if dec_approved decision then ''approved'' else ''rejected'') @
                       '' by '' @ dec_resolver decision\<rparr>, s2)))"

section \<open>Vocabulary of the statements\<close>

subsection \<open>Concrete states\<close>

text \<open>
  The process right after start: no workflow, no approval, no audit entry. Every cell of
  the heap holds the placeholder \<open>no_workflow\<close> until \<open>create_workflow\<close> fills it.
\<close>

definition no_workflow :: Workflow where
  "no_workflow =
     \<lparr>workflow_id = [], repository = [], branch = [], status = PENDING,
      current_step = None, steps = [],
      scan_id = JNull, assessment_id = JNull, remediation_ids = [],
      total_vulnerabilities = 0, critical_count = JNum 0, high_count = JNum 0,
      auto_remediated = JNum 0, awaiting_approval = 0,
      created_at = 0, updated_at = 0, completed_at = None,
      triggered_by = [], metadata = []\<rparr>"

definition initial_state :: state where
  "initial_state =
     \<lparr>heap = (\<lambda>r. no_workflow), next_ref = 0, workflows = Map.empty, approvals_store = [],
      audit_entries = [], trace = [], clock = 0\<rparr>"

text \<open>A workflow \<^verbatim>\<open>w1\<close> that has been created and then marked completed.\<close>

definition finished_state :: state where
  "finished_state =
     complete_workflow ''w1'' COMPLETED
       (snd (create_workflow ''w1'' ''acme/api'' ''main'' ''api'' None initial_state))"

subsection \<open>Routing of an assessment\<close>

text \<open>
  The priority label the decision loop reads from an assessment, when the assessment and
  its \<^verbatim>\<open>"risk_score"\<close> are dicts, and the vulnerability object the loop builds from it.
\<close>

fun risk_priority :: "json \<Rightarrow> json option" where
  "risk_priority (JObj a) =
     (case dict_get a ''risk_score'' (JObj []) of
        JObj rs \<Rightarrow> Some (dict_get rs ''priority'' (JStr ''P2''))
      | _ \<Rightarrow> None)"
| "risk_priority _ = None"

fun vuln_of :: "json \<Rightarrow> json" where
  "vuln_of (JObj a) =
     JObj [(''id'', dict_get a ''vulnerability_id'' JNull),
           (''cve_id'', dict_get a ''cve_id'' JNull),
           (''title'', dict_get a ''title'' JNull),
           (''severity'', dict_get a ''severity'' JNull),
           (''priority'', (case risk_priority (JObj a) of Some p \<Rightarrow> p | None \<Rightarrow> JNull)),
           (''cvss_score'', dict_get a ''cvss_score'' JNull)]"
| "vuln_of x = JNull"

text \<open>
  The two routes as the policy table gives them: \<open>arc\<close> is the workflow's own
  \<^verbatim>\<open>auto_remediate\<close> flag.
\<close>

definition auto_route :: "Settings \<Rightarrow> json \<Rightarrow> json \<Rightarrow> bool" where
  "auto_route cfg arc a =
     (case risk_priority a of
        None \<Rightarrow> False
      | Some p \<Rightarrow>
          (p = JStr ''P0'' \<or> p = JStr ''P1'') \<and> \<not> require_approval_p0_p1 cfg
          \<or> p = JStr ''P2'' \<and> auto_remediate_p2 cfg
          \<or> (p = JStr ''P3'' \<or> p = JStr ''P4'') \<and> auto_remediate_p3_p4 cfg \<and> truthy arc)"

definition approval_route :: "Settings \<Rightarrow> json \<Rightarrow> bool" where
  "approval_route cfg a =
     (case risk_priority a of
        None \<Rightarrow> False
      | Some p \<Rightarrow>
          (p = JStr ''P0'' \<or> p = JStr ''P1'') \<and> require_approval_p0_p1 cfg
          \<or> p = JStr ''P2'' \<and> \<not> auto_remediate_p2 cfg)"

text \<open>An assessment labelled \<^verbatim>\<open>P3\<close>.\<close>

definition p3_assessment :: json where
  "p3_assessment =
     JObj [(''vulnerability_id'', JStr ''V1''), (''risk_score'', JObj [(''priority'', JStr ''P3'')])]"

subsection \<open>Polling\<close>

definition timeout_result :: dict where
  "timeout_result = [(''error'', JStr ''Polling timeout''), (''status'', JStr ''timeout'')]"

text \<open>The collaborator reports the scan as completed or as failed.\<close>

definition scan_finished :: "dict \<Rightarrow> bool" where
  "scan_finished res =
     (dict_get res ''status'' (JStr ''unknown'') = JStr ''completed''
      \<or> dict_get res ''status'' (JStr ''unknown'') = JStr ''failed'')"

text \<open>The ceiling of \<open>wait / poll_interval\<close>, as a number of polls (none for a wait below 0).\<close>

definition poll_budget :: "int \<Rightarrow> int \<Rightarrow> int" where
  "poll_budget wait poll_interval = max 0 \<lceil>real_of_int wait / real_of_int poll_interval\<rceil>"

text \<open>A world that reports the scan as completed, without findings, at the first poll.\<close>

definition clean_world :: world where
  "clean_world =
     quiet [(''scan_id'', JStr ''s1'')]
       (\<lambda>n. [(''scan_id'', JStr ''s1''), (''status'', JStr ''completed''), (''results'', JArr [])])
       [] []"

subsection \<open>Approvals\<close>

text \<open>
  An approval \<^verbatim>\<open>a1\<close> created at time 0 with one hour to expiry, looked at again two
  hours later, and a decision to approve it.
\<close>

definition approval_request_1 :: CreateApprovalRequest where
  "approval_request_1 =
     \<lparr>car_workflow_id = ''w1'', car_title = ''Fix V1'', car_description = ''P1 finding'',
      car_vulnerability_ids = [''V1''], car_priority = ''P1'', car_risk_summary = [],
      car_recommended_action = [], car_requested_by = ''system'', car_expires_in_hours = 1\<rparr>"

definition overdue_state :: state where
  "overdue_state = (snd (create_approval ''a1'' approval_request_1 initial_state))\<lparr>clock := 7200\<rparr>"

definition approve_by_alice :: ApprovalDecision where
  "approve_by_alice = \<lparr>dec_approved = True, dec_resolver = ''alice'', dec_comment = None\<rparr>"

text \<open>A request to approve the remediation of \<^verbatim>\<open>V1\<close> in workflow \<^verbatim>\<open>w1\<close>.\<close>

definition approve_w1 :: ApproveRequest where
  "approve_w1 =
     \<lparr>req_workflow_id = ''w1'', req_vulnerability_ids = [''V1''], req_approved = True,
      req_approver = ''alice'', req_comment = None\<rparr>"

subsection \<open>States of one workflow\<close>

text \<open>
  \<open>put r ob evs s\<close> is the state \<open>s\<close> with the object \<open>ob\<close> behind the reference \<open>r\<close>
  and \<open>evs\<close> added to the log; \<open>logged evs s\<close> only adds to the log. A run of the
  engine in a quiet world takes a state of this form to a state of this form.
\<close>

definition put :: "nat \<Rightarrow> Workflow \<Rightarrow> event list \<Rightarrow> state \<Rightarrow> state" where
  "put r ob evs s = s\<lparr>heap := (heap s)(r := ob), trace := trace s @ evs\<rparr>"

definition logged :: "event list \<Rightarrow> state \<Rightarrow> state" where
  "logged evs s = s\<lparr>trace := trace s @ evs\<rparr>"

text \<open>The object \<^verbatim>\<open>start_workflow\<close> creates, and the store once it is registered.\<close>

definition fresh_workflow :: "string \<Rightarrow> WorkflowRequest \<Rightarrow> string \<Rightarrow> int \<Rightarrow> Workflow" where
  "fresh_workflow wid req trig now =
     \<lparr>workflow_id = wid, repository = wr_repository req, branch = wr_branch req, status = PENDING,
      current_step = Some ''scan'', steps = initial_steps,
      scan_id = JNull, assessment_id = JNull, remediation_ids = [],
      total_vulnerabilities = 0, critical_count = JNum 0, high_count = JNum 0,
      auto_remediated = JNum 0, awaiting_approval = 0,
      created_at = now, updated_at = now, completed_at = None,
      triggered_by = trig,
      metadata = [(''scan_types'', JArr (map JStr (wr_scan_types req))),
                  (''auto_remediate'', JBool (wr_auto_remediate req)),
                  (''notify'', JBool (wr_notify req))]\<rparr>"

definition registering :: "string \<Rightarrow> state \<Rightarrow> state" where
  "registering wid s = s\<lparr>next_ref := Suc (next_ref s), workflows := (workflows s)(wid \<mapsto> next_ref s)\<rparr>"

subsection \<open>The step statuses over a lifetime\<close>

text \<open>The step statuses of each version of a workflow that was saved, oldest first.\<close>

fun saved_statuses :: "event list \<Rightarrow> WorkflowStatus list list" where
  "saved_statuses [] = []"
| "saved_statuses (Saved wid st sts # evs) = sts # saved_statuses evs"
| "saved_statuses (e # evs) = saved_statuses evs"

text \<open>The workflow status of each saved version, oldest first.\<close>

fun saved_status :: "event list \<Rightarrow> WorkflowStatus list" where
  "saved_status [] = []"
| "saved_status (Saved wid st sts # evs) = st # saved_status evs"
| "saved_status (e # evs) = saved_status evs"

text \<open>The requests made to the collaborators (and the sleeps), oldest first.\<close>

fun requests :: "event list \<Rightarrow> event list" where
  "requests [] = []"
| "requests (Saved wid st sts # evs) = requests evs"
| "requests (e # evs) = e # requests evs"

text \<open>
  A list of statuses is in order when it is a run of \<^verbatim>\<open>COMPLETED\<close> entries, then at most
  one entry of another kind that is not \<^verbatim>\<open>PENDING\<close>, then \<^verbatim>\<open>PENDING\<close> entries only.
\<close>

fun progress :: "WorkflowStatus list \<Rightarrow> bool" where
  "progress [] = True"
| "progress (x # xs) = (if x = COMPLETED then progress xs else list_all (\<lambda>y. y = PENDING) xs)"

text \<open>From one version to the next, a completed or failed step keeps its status.\<close>

definition keeps :: "WorkflowStatus list \<Rightarrow> WorkflowStatus list \<Rightarrow> bool" where
  "keeps l l' = list_all2 (\<lambda>x y. if x = COMPLETED \<or> x = FAILED then y = x else True) l l'"

text \<open>
  What the engine keeps to: the steps \<^verbatim>\<open>decide\<close> and \<^verbatim>\<open>complete\<close> (positions 2 and 4)
  stay \<^verbatim>\<open>PENDING\<close>, and \<^verbatim>\<open>scan\<close>, \<^verbatim>\<open>assess\<close>, \<^verbatim>\<open>remediate\<close> are in order.
\<close>

definition engine_order :: "WorkflowStatus list \<Rightarrow> bool" where
  "engine_order l =
     (length l = 5 \<and> l ! 2 = PENDING \<and> l ! 4 = PENDING \<and> progress [l ! 0, l ! 1, l ! 3])"

fun lifetime :: "(WorkflowStatus list \<Rightarrow> bool) \<Rightarrow> WorkflowStatus list list \<Rightarrow> bool" where
  "lifetime ok [] = True"
| "lifetime ok [l] = ok l"
| "lifetime ok (l # l' # ls) = (ok l \<and> keeps l l' \<and> lifetime ok (l' # ls))"

section \<open>Basic facts\<close>

lemmas sm_defs =
  create_workflow_def save_workflow_def update_workflow_def modify_def get_workflow_def
  utcnow_def complete_workflow_def update_step_def

lemma finished_state_facts:
  "get_workflow ''w1'' finished_state = Some 0" "status (heap finished_state 0) = COMPLETED"
  by (simp_all add: finished_state_def initial_state_def sm_defs Let_def)

section \<open>Cancellation overwrites any status\<close>

text \<open>
  Claim C10. \<^verbatim>\<open>cancel_workflow\<close> never looks at the current status: for every workflow
  the store knows, whatever its status (a terminal one included), the cancel endpoint
  answers 200 and leaves the workflow with status \<^verbatim>\<open>CANCELLED\<close> and \<^verbatim>\<open>completed_at\<close> set to
  the time of the call.
\<close>

theorem cancel_overwrites_any_status:
  assumes "get_workflow wid s = Some r"
  shows "\<exists>s'. cancel_workflow wid s = (Some r, s')
           \<and> cancel_endpoint wid s = (Ok (workflow_response Workflow_cancelled r s'), s')
           \<and> status (heap s' r) = CANCELLED
           \<and> completed_at (heap s' r) = Some (utcnow s)"
  using assms
  by (simp add: cancel_endpoint_def cancel_workflow_def sm_defs workflow_response_def)

theorem cancel_overwrites_any_status_witness:
  "get_workflow ''w1'' finished_state = Some 0
   \<and> status (heap finished_state 0) = COMPLETED
   \<and> (\<exists>s'. cancel_workflow ''w1'' finished_state = (Some 0, s')
           \<and> cancel_endpoint ''w1'' finished_state = (Ok (workflow_response Workflow_cancelled 0 s'), s')
           \<and> status (heap s' 0) = CANCELLED
           \<and> completed_at (heap s' 0) = Some (utcnow finished_state))"
  using cancel_overwrites_any_status[of "''w1''" finished_state 0] finished_state_facts
  by simp

section \<open>The routing policy\<close>

lemma categorize_acc:
  "list_all (\<lambda>a. risk_priority a \<noteq> None) items \<Longrightarrow>
   categorize cfg arc items ta tw =
     Inr (ta @ map vuln_of (filter (auto_route cfg arc) items),
          tw @ map vuln_of (filter (approval_route cfg) items))"
proof (induction items arbitrary: ta tw)
  case Nil
  then show ?case by simp
next
  case (Cons a items)
  from Cons.prems obtain d rs where a: "a = JObj d" and rs: "dict_get d ''risk_score'' (JObj []) = JObj rs"
    by (cases a) (auto split: json.splits)
  from Cons.prems have rest: "list_all (\<lambda>a. risk_priority a \<noteq> None) items" by simp
  show ?case
    unfolding a
    by (simp add: rs Cons.IH[OF rest] auto_route_def approval_route_def Let_def)
qed

lemma categorize_raises:
  "\<not> list_all (\<lambda>a. risk_priority a \<noteq> None) items \<Longrightarrow>
   categorize cfg arc items ta tw = Inl AttributeError"
proof (induction items arbitrary: ta tw)
  case Nil
  then show ?case by simp
next
  case (Cons a items)
  show ?case
  proof (cases "risk_priority a")
    case None
    then show ?thesis by (cases a) (auto split: json.splits)
  next
    case (Some p)
    then obtain d rs where a: "a = JObj d" and rs: "dict_get d ''risk_score'' (JObj []) = JObj rs"
      by (cases a) (auto split: json.splits)
    from Cons.prems Some have "\<not> list_all (\<lambda>a. risk_priority a \<noteq> None) items" by simp
    from Cons.IH[OF this] show ?thesis unfolding a by (simp add: rs Let_def)
  qed
qed

lemma routes_exclusive: "\<not> (auto_route cfg arc a \<and> approval_route cfg a)"
  by (auto simp: auto_route_def approval_route_def split: option.splits)

text \<open>
  Claim C3, as the code has it. The claim says that no assessment is left unrouted; the
  loop has no \<^verbatim>\<open>else\<close> for \<^verbatim>\<open>P3\<close>/\<^verbatim>\<open>P4\<close> and no branch for any other label, so such an
  assessment reaches neither list.
\<close>

theorem routing_leaves_p3_unrouted:
  "categorize (default_settings\<lparr>auto_remediate_p3_p4 := False\<rparr>) (JBool True) [p3_assessment] [] []
     = Inr ([], [])"
  by (simp add: p3_assessment_def dict_get_def default_settings_def)

text \<open>
  What holds instead: when every assessment is a dict whose \<^verbatim>\<open>"risk_score"\<close> is a dict,
  the loop puts into the auto-remediate batch exactly the assessments with \<^verbatim>\<open>P0\<close>/\<^verbatim>\<open>P1\<close>
  and no approval requirement, \<^verbatim>\<open>P2\<close> with \<^verbatim>\<open>auto_remediate_p2\<close>, or \<^verbatim>\<open>P3\<close>/\<^verbatim>\<open>P4\<close> with
  \<^verbatim>\<open>auto_remediate_p3_p4\<close> and the workflow's own flag; into the approval queue exactly
  those with \<^verbatim>\<open>P0\<close>/\<^verbatim>\<open>P1\<close> under the approval requirement or \<^verbatim>\<open>P2\<close> without
  \<^verbatim>\<open>auto_remediate_p2\<close>; both in the order of the assessments. No assessment is on both
  routes, and the ones on neither are \<^verbatim>\<open>P3\<close>/\<^verbatim>\<open>P4\<close> with one of the two flags off and
  those with any other label.
\<close>

theorem routing_policy:
  assumes "list_all (\<lambda>a. risk_priority a \<noteq> None) items"
  shows "categorize cfg arc items [] [] =
           Inr (map vuln_of (filter (auto_route cfg arc) items),
                map vuln_of (filter (approval_route cfg) items))
         \<and> list_all (\<lambda>a. \<not> (auto_route cfg arc a \<and> approval_route cfg a)) items
         \<and> list_all (\<lambda>a. (\<not> auto_route cfg arc a \<and> \<not> approval_route cfg a) =
              (case risk_priority a of
                 None \<Rightarrow> True
               | Some p \<Rightarrow>
                   (p = JStr ''P3'' \<or> p = JStr ''P4'') \<and> \<not> (auto_remediate_p3_p4 cfg \<and> truthy arc)
                   \<or> p \<notin> {JStr ''P0'', JStr ''P1'', JStr ''P2'', JStr ''P3'', JStr ''P4''})) items"
proof -
  have "categorize cfg arc items [] [] =
           Inr (map vuln_of (filter (auto_route cfg arc) items),
                map vuln_of (filter (approval_route cfg) items))"
    using categorize_acc[OF assms, of cfg arc "[]" "[]"] by simp
  moreover have "list_all (\<lambda>a. \<not> (auto_route cfg arc a \<and> approval_route cfg a)) items"
    by (simp add: list_all_iff routes_exclusive)
  moreover have "list_all (\<lambda>a. (\<not> auto_route cfg arc a \<and> \<not> approval_route cfg a) =
              (case risk_priority a of
                 None \<Rightarrow> True
               | Some p \<Rightarrow>
                   (p = JStr ''P3'' \<or> p = JStr ''P4'') \<and> \<not> (auto_remediate_p3_p4 cfg \<and> truthy arc)
                   \<or> p \<notin> {JStr ''P0'', JStr ''P1'', JStr ''P2'', JStr ''P3'', JStr ''P4''})) items"
    unfolding list_all_iff
    by (auto simp: auto_route_def approval_route_def split: option.splits)
  ultimately show ?thesis by blast
qed

theorem routing_policy_witness:
  "list_all (\<lambda>a. risk_priority a \<noteq> None) [p3_assessment]
   \<and> categorize default_settings (JBool True) [p3_assessment] [] [] = Inr ([vuln_of p3_assessment], [])
   \<and> auto_route default_settings (JBool True) p3_assessment
   \<and> \<not> approval_route default_settings p3_assessment"
  using routing_policy[of "[p3_assessment]" default_settings "JBool True"]
  by (simp add: p3_assessment_def dict_get_def default_settings_def auto_route_def approval_route_def)

section \<open>Polling ends within its budget\<close>

lemma poll_budget_step:
  assumes "0 < iv" "e < mw"
  shows "poll_budget (mw - (e + iv)) iv + 1 = poll_budget (mw - e) iv" "1 \<le> poll_budget (mw - e) iv"
proof -
  have pos: "0 < real_of_int (mw - e) / real_of_int iv" using assms by simp
  then have one: "1 \<le> \<lceil>real_of_int (mw - e) / real_of_int iv\<rceil>" by linarith
  have "real_of_int (mw - (e + iv)) / real_of_int iv = real_of_int (mw - e) / real_of_int iv - 1"
    using assms by (simp add: field_simps)
  then have "\<lceil>real_of_int (mw - (e + iv)) / real_of_int iv\<rceil> = \<lceil>real_of_int (mw - e) / real_of_int iv\<rceil> - 1"
    by simp
  with one show "poll_budget (mw - (e + iv)) iv + 1 = poll_budget (mw - e) iv"
    by (simp add: poll_budget_def)
  from one show "1 \<le> poll_budget (mw - e) iv" by (simp add: poll_budget_def)
qed

lemma poll_loop_bounded:
  assumes "0 < iv"
  shows "\<exists>res s'. poll_loop w sid mw iv e n s = Some (res, s')
           \<and> (res = timeout_result
               \<or> (\<exists>k\<ge>n. res = get_scan_results_result w k \<and> scan_finished res
                      \<and> int (Suc k - n) \<le> poll_budget (mw - e) iv))
           \<and> (others w = (\<lambda>e s. s) \<longrightarrow>
                (\<exists>evs. s' = s\<lparr>trace := trace s @ evs\<rparr>
                   \<and> set evs \<subseteq> {GetScanResults sid, Sleep iv}
                   \<and> int (count_list evs (GetScanResults sid)) \<le> poll_budget (mw - e) iv))"
proof (induction "nat (mw - e)" arbitrary: e n s rule: less_induct)
  case less
  show ?case
  proof (cases "e < mw")
    case False
    then show ?thesis
      by (subst poll_loop.simps) (auto simp: timeout_result_def poll_budget_def intro!: exI[of _ "[]"])
  next
    case True
    note budget = poll_budget_step[OF assms True]
    show ?thesis
    proof (cases "scan_finished (get_scan_results_result w n)")
      case fin: True
      have "poll_loop w sid mw iv e n s =
              Some (get_scan_results_result w n, await w (GetScanResults sid) s)"
        using True fin
        by (subst poll_loop.simps) (auto simp: get_scan_results_def scan_finished_def)
      then show ?thesis
        using fin budget(2) by (auto simp: await_def intro!: exI[of _ n])
    next
      case notfin: False
      let ?s1 = "await w (Sleep iv) (await w (GetScanResults sid) s)"
      have unf: "poll_loop w sid mw iv e n s = poll_loop w sid mw iv (e + iv) (Suc n) ?s1"
        using True notfin
        by (subst poll_loop.simps) (auto simp: get_scan_results_def scan_finished_def)
      have "nat (mw - (e + iv)) < nat (mw - e)" using assms True by simp
      from less[OF this, of "Suc n" ?s1] obtain res s' where
        run: "poll_loop w sid mw iv (e + iv) (Suc n) ?s1 = Some (res, s')"
        and res: "res = timeout_result
               \<or> (\<exists>k\<ge>Suc n. res = get_scan_results_result w k \<and> scan_finished res
                      \<and> int (Suc k - Suc n) \<le> poll_budget (mw - (e + iv)) iv)"
        and tr: "others w = (\<lambda>e s. s) \<longrightarrow>
                (\<exists>evs. s' = ?s1\<lparr>trace := trace ?s1 @ evs\<rparr>
                   \<and> set evs \<subseteq> {GetScanResults sid, Sleep iv}
                   \<and> int (count_list evs (GetScanResults sid)) \<le> poll_budget (mw - (e + iv)) iv)"
        by blast
      have res': "res = timeout_result
               \<or> (\<exists>k\<ge>n. res = get_scan_results_result w k \<and> scan_finished res
                      \<and> int (Suc k - n) \<le> poll_budget (mw - e) iv)"
      proof (rule disjE[OF res])
        assume "res = timeout_result"
        then show ?thesis by simp
      next
        assume "\<exists>k\<ge>Suc n. res = get_scan_results_result w k \<and> scan_finished res
                      \<and> int (Suc k - Suc n) \<le> poll_budget (mw - (e + iv)) iv"
        then obtain k where k: "Suc n \<le> k" "res = get_scan_results_result w k" "scan_finished res"
          "int (Suc k - Suc n) \<le> poll_budget (mw - (e + iv)) iv"
          by blast
        have "int (Suc k - n) \<le> poll_budget (mw - e) iv"
          using k(1,4) budget(1) by linarith
        with k show ?thesis by (intro disjI2 exI[of _ k]) simp
      qed
      have tr': "others w = (\<lambda>e s. s) \<longrightarrow>
                (\<exists>evs. s' = s\<lparr>trace := trace s @ evs\<rparr>
                   \<and> set evs \<subseteq> {GetScanResults sid, Sleep iv}
                   \<and> int (count_list evs (GetScanResults sid)) \<le> poll_budget (mw - e) iv)"
      proof
        assume q: "others w = (\<lambda>e s. s)"
        with tr obtain evs where
          evs: "s' = ?s1\<lparr>trace := trace ?s1 @ evs\<rparr>" "set evs \<subseteq> {GetScanResults sid, Sleep iv}"
            "int (count_list evs (GetScanResults sid)) \<le> poll_budget (mw - (e + iv)) iv"
          by blast
        have "s' = s\<lparr>trace := trace s @ (GetScanResults sid # Sleep iv # evs)\<rparr>"
          using evs(1) q by (simp add: await_def)
        moreover have "set (GetScanResults sid # Sleep iv # evs) \<subseteq> {GetScanResults sid, Sleep iv}"
          using evs(2) by simp
        moreover have "int (count_list (GetScanResults sid # Sleep iv # evs) (GetScanResults sid))
                         \<le> poll_budget (mw - e) iv"
          using evs(3) budget(1) by simp
        ultimately show "\<exists>evs. s' = s\<lparr>trace := trace s @ evs\<rparr>
                   \<and> set evs \<subseteq> {GetScanResults sid, Sleep iv}
                   \<and> int (count_list evs (GetScanResults sid)) \<le> poll_budget (mw - e) iv"
          by blast
      qed
      show ?thesis using unf run res' tr' by simp
    qed
  qed
qed


lemma poll_scan_completion_total:
  "poll_scan_completion w sid mw 5 s \<noteq> None"
  using poll_loop_bounded[of 5 w sid mw 0 0 s] by (auto simp: poll_scan_completion_def)

lemma execute_scan_total: "execute_scan cfg w r s \<noteq> None"
  by (simp add: execute_scan_def Let_def poll_scan_completion_total
        split: prod.splits sum.splits option.splits)

lemma execute_workflow_total: "execute_workflow cfg w r s \<noteq> None"
  using execute_scan_total[of cfg w r s]
  by (auto simp: execute_workflow_def split: option.splits outcome.splits)

text \<open>
  Claim C9. For every positive poll interval \<^verbatim>\<open>poll_scan_completion\<close> returns, whatever
  the collaborator answers and whatever other tasks do meanwhile. What it returns is the
  timeout error or an answer of the collaborator that reports the scan completed or
  failed, the \<open>k\<close>-th answer with \<open>k + 1\<close> within the budget
  \<open>\<lceil>max_wait / poll_interval\<rceil>\<close>; and when nothing else writes to the log, the
  requests it has made are within that budget. The defaults, 600 and 5, give 120 polls.
  Polling is the only loop of the execution unit, so the unit as a whole always ends.
\<close>

theorem poll_scan_completion_bounded:
  assumes "0 < poll_interval"
  shows "(\<exists>res s'. poll_scan_completion w sid max_wait poll_interval s = Some (res, s')
           \<and> (res = timeout_result
               \<or> (\<exists>k. res = get_scan_results_result w k \<and> scan_finished res
                      \<and> int (Suc k) \<le> poll_budget max_wait poll_interval))
           \<and> (others w = (\<lambda>e s. s) \<longrightarrow>
                (\<exists>evs. s' = s\<lparr>trace := trace s @ evs\<rparr>
                   \<and> set evs \<subseteq> {GetScanResults sid, Sleep poll_interval}
                   \<and> int (count_list evs (GetScanResults sid)) \<le> poll_budget max_wait poll_interval)))
         \<and> poll_budget 600 5 = 120
         \<and> (\<exists>s'. execute_workflow cfg w r s = Some s')"
proof -
  from poll_loop_bounded[OF assms, of w sid max_wait 0 0 s]
  have "\<exists>res s'. poll_scan_completion w sid max_wait poll_interval s = Some (res, s')
           \<and> (res = timeout_result
               \<or> (\<exists>k. res = get_scan_results_result w k \<and> scan_finished res
                      \<and> int (Suc k) \<le> poll_budget max_wait poll_interval))
           \<and> (others w = (\<lambda>e s. s) \<longrightarrow>
                (\<exists>evs. s' = s\<lparr>trace := trace s @ evs\<rparr>
                   \<and> set evs \<subseteq> {GetScanResults sid, Sleep poll_interval}
                   \<and> int (count_list evs (GetScanResults sid)) \<le> poll_budget max_wait poll_interval))"
    unfolding poll_scan_completion_def by (elim exE conjE) (auto 0 3)
  moreover have "poll_budget 600 5 = 120" by (simp add: poll_budget_def)
  moreover have "\<exists>s'. execute_workflow cfg w r s = Some s'"
    using execute_workflow_total[of cfg w r s] by auto
  ultimately show ?thesis by blast
qed

theorem poll_scan_completion_bounded_witness:
  "(0::int) < 5
   \<and> others clean_world = (\<lambda>e s. s)
   \<and> (\<exists>res s'. poll_scan_completion clean_world (JStr ''s1'') 600 5 initial_state = Some (res, s')
           \<and> (res = timeout_result
               \<or> (\<exists>k. res = get_scan_results_result clean_world k \<and> scan_finished res
                      \<and> int (Suc k) \<le> poll_budget 600 5))
           \<and> (\<exists>evs. s' = initial_state\<lparr>trace := trace initial_state @ evs\<rparr>
                   \<and> set evs \<subseteq> {GetScanResults (JStr ''s1''), Sleep 5}
                   \<and> int (count_list evs (GetScanResults (JStr ''s1''))) \<le> poll_budget 600 5))
   \<and> poll_budget 600 5 = 120
   \<and> (\<exists>s'. execute_workflow default_settings clean_world 0 initial_state = Some s')"
proof -
  have q: "others clean_world = (\<lambda>e s. s)" by (simp add: clean_world_def quiet_def)
  have pos: "(0::int) < 5" by simp
  from poll_scan_completion_bounded[OF pos, of clean_world "JStr ''s1''" 600 initial_state
         default_settings 0] q pos
  show ?thesis by blast
qed

section \<open>Deciding an approval\<close>

lemmas hitl_defs = create_approval_def log_approval_requested_def audit_log_def utcnow_def
  decide_approval_def log_approval_decision_def

text \<open>
  Claim C6, at an input where the code departs from it. The approval \<^verbatim>\<open>a1\<close> expired at
  3600 and is decided at 7200; no listing has marked it since, so its stored status is
  still pending. \<^verbatim>\<open>decide_approval\<close> looks at the stored status only, never at
  \<^verbatim>\<open>expires_at\<close> (the check that \<^verbatim>\<open>get_pending_approvals\<close> makes), and approves it.
\<close>

theorem decide_accepts_overdue_approval:
  "map_of (approvals_store overdue_state) ''a1'' \<noteq> None
   \<and> approval_status (the (map_of (approvals_store overdue_state) ''a1'')) = APPROVAL_PENDING
   \<and> expires_at (the (map_of (approvals_store overdue_state) ''a1'')) = Some 3600
   \<and> utcnow overdue_state = 7200
   \<and> fst (decide_approval ''a1'' approve_by_alice overdue_state) =
        Ok \<lparr>reply_approval_id = ''a1'', reply_status = APPROVED,
            reply_message = ''Approval approved by alice''\<rparr>
   \<and> approval_status (the (map_of (approvals_store
         (snd (decide_approval ''a1'' approve_by_alice overdue_state))) ''a1'')) = APPROVED"
  by (simp add: overdue_state_def approval_request_1_def approve_by_alice_def initial_state_def
        hitl_defs Let_def)

section \<open>Resolving an approval through the engine\<close>

text \<open>
  Claim C2, as the code has it. The claim wants \<^verbatim>\<open>InvalidState\<close> when the workflow does
  not await approval; \<^verbatim>\<open>POST /approve\<close> on the completed workflow \<^verbatim>\<open>w1\<close> answers 200
  instead and leaves the state as it was.
\<close>

theorem approve_succeeds_when_not_awaiting:
  "status (heap finished_state 0) = COMPLETED
   \<and> approve_endpoint clean_world approve_w1 finished_state =
       (Ok (workflow_response (Approved_remediations 1) 0 finished_state), finished_state)"
  by (simp add: approve_endpoint_def approve_remediation_def approve_w1_def finished_state_facts)

text \<open>
  What holds instead, for a request with \<^verbatim>\<open>approved = true\<close>: an unknown workflow is
  answered with 404; a workflow that does not await approval is answered with 200 and the
  workflow as it is, the process state (and so the log of collaborator requests)
  unchanged.
\<close>

theorem approve_endpoint_rejections:
  assumes "req_approved req"
  shows "(get_workflow (req_workflow_id req) s = None \<longrightarrow>
            approve_endpoint w req s = (HTTPException 404 ''Workflow not found'', s))
         \<and> (\<forall>r. get_workflow (req_workflow_id req) s = Some r \<and> status (heap s r) \<noteq> AWAITING_APPROVAL \<longrightarrow>
            approve_endpoint w req s =
              (Ok (workflow_response (Approved_remediations (length (req_vulnerability_ids req))) r s), s))"
  using assms by (auto simp: approve_endpoint_def approve_remediation_def)

theorem approve_endpoint_rejections_witness:
  "req_approved approve_w1
   \<and> get_workflow (req_workflow_id approve_w1) initial_state = None
   \<and> approve_endpoint clean_world approve_w1 initial_state = (HTTPException 404 ''Workflow not found'', initial_state)
   \<and> get_workflow (req_workflow_id approve_w1) finished_state = Some 0
   \<and> status (heap finished_state 0) \<noteq> AWAITING_APPROVAL
   \<and> approve_endpoint clean_world approve_w1 finished_state =
       (Ok (workflow_response (Approved_remediations (length (req_vulnerability_ids approve_w1))) 0 finished_state),
        finished_state)"
proof -
  have a: "req_approved approve_w1" by (simp add: approve_w1_def)
  have n: "get_workflow (req_workflow_id approve_w1) initial_state = None"
    by (simp add: approve_w1_def get_workflow_def initial_state_def)
  have f: "get_workflow (req_workflow_id approve_w1) finished_state = Some 0"
    "status (heap finished_state 0) \<noteq> AWAITING_APPROVAL"
    by (simp_all add: approve_w1_def finished_state_facts)
  from approve_endpoint_rejections[OF a, of initial_state clean_world]
       approve_endpoint_rejections[OF a, of finished_state clean_world] a n f
  show ?thesis by blast
qed

section \<open>Running the engine on one workflow\<close>

lemma put_proj [simp]:
  "heap (put r ob evs s) r = ob"
  "workflows (put r ob evs s) = workflows s"
  "trace (put r ob evs s) = trace s @ evs"
  "approvals_store (put r ob evs s) = approvals_store s"
  "audit_entries (put r ob evs s) = audit_entries s"
  "clock (put r ob evs s) = clock s"
  "next_ref (put r ob evs s) = next_ref s"
  by (simp_all add: put_def)

lemma put_put [simp]: "put r ob' evs' (put r ob evs s) = put r ob' (evs @ evs') s"
  by (simp add: put_def)

lemma logged_put [simp]: "logged pevs (put r ob evs s) = put r ob (evs @ pevs) s"
  by (simp add: put_def logged_def)

lemma modify_put [simp]: "modify r f (put r ob evs s) = put r (f ob) evs s"
  by (simp add: put_def modify_def)

lemma update_workflow_put [simp]:
  "workflows s (workflow_id ob) = Some r \<Longrightarrow>
   update_workflow r (put r ob evs s) =
     put r (ob\<lparr>updated_at := clock s\<rparr>)
       (evs @ [Saved (workflow_id ob) (status ob) (map step_status (steps ob))]) s"
  by (simp add: put_def update_workflow_def save_workflow_def modify_def utcnow_def map_upd_triv)

lemma update_step_put [simp]:
  "workflows s wid = Some r \<Longrightarrow> workflow_id ob = wid \<Longrightarrow>
   update_step wid sid st out err (put r ob evs s) =
     put r (ob\<lparr>steps := update_first sid (set_step st out err (clock s)) (steps ob),
               updated_at := clock s\<rparr>)
       (evs @ [Saved wid (status ob)
                 (map step_status (update_first sid (set_step st out err (clock s)) (steps ob)))]) s"
  by (auto simp: update_step_def get_workflow_def utcnow_def)

lemma complete_workflow_put [simp]:
  "workflows s wid = Some r \<Longrightarrow> workflow_id ob = wid \<Longrightarrow>
   complete_workflow wid st (put r ob evs s) =
     put r (ob\<lparr>status := st, completed_at := Some (clock s), current_step := None,
               updated_at := clock s\<rparr>)
       (evs @ [Saved wid st (map step_status (steps ob))]) s"
  by (auto simp: complete_workflow_def get_workflow_def utcnow_def)

lemma await_quiet_put [simp]:
  "await (quiet t p a m) e (put r ob evs s) = put r ob (evs @ [e]) s"
  by (simp add: await_def quiet_def put_def)

lemma quiet_proj [simp]:
  "trigger_scan_result (quiet t p a m) = t"
  "get_scan_results_result (quiet t p a m) = p"
  "assess_result (quiet t p a m) = a"
  "remediate_result (quiet t p a m) = m"
  "others (quiet t p a m) = (\<lambda>e s. s)"
  by (simp_all add: quiet_def)

lemma start_workflow_put:
  "start_workflow wid req trig s0 =
     (next_ref s0,
      put (next_ref s0) (fresh_workflow wid req trig (clock s0))
        [Saved wid PENDING [PENDING, PENDING, PENDING, PENDING, PENDING]]
        (registering wid s0))"
  by (simp add: start_workflow_def create_workflow_def save_workflow_def put_def fresh_workflow_def
        utcnow_def Let_def initial_steps_def new_step_def registering_def)

lemma registering_proj [simp]:
  "workflows (registering wid s) wid = Some (next_ref s)"
  "trace (registering wid s) = trace s"
  "approvals_store (registering wid s) = approvals_store s"
  "audit_entries (registering wid s) = audit_entries s"
  "clock (registering wid s) = clock s"
  by (simp_all add: registering_def)

subsection \<open>Fields of a step after an update\<close>

lemma set_step_proj [simp]:
  "step_id (set_step st out err now x) = step_id x"
  "step_status (set_step st out err now x) = st"
  "output_data (set_step st None err now x) = output_data x"
  "output_data (set_step st (Some d) err now x) = (if d \<noteq> [] then d else output_data x)"
  "error_message (set_step st out None now x) = error_message x"
  "error_message (set_step st out (Some e) now x) = (if truthy e then e else error_message x)"
  by (simp_all add: set_step_def Let_def split: option.splits)

lemma dict_get_simps [simp]:
  "dict_get [] k dflt = dflt"
  "dict_get ((k', v) # d) k dflt = (if k' = k then v else dict_get d k dflt)"
  by (simp_all add: dict_get_def)

lemma has_key_simps [simp]:
  "has_key [] k = False"
  "has_key ((k', v) # d) k = (k' = k \<or> has_key d k)"
  by (auto simp: has_key_def)

subsection \<open>Polling in a quiet world\<close>

text \<open>
  In a quiet world the answer of \<^verbatim>\<open>poll_scan_completion\<close> and the requests it logs do not
  depend on the state it starts from.
\<close>

lemma poll_loop_uniform:
  "\<exists>res pevs. (\<forall>s. poll_loop (quiet t p a m) sid mw 5 e n s = Some (res, logged pevs s))
      \<and> set pevs \<subseteq> {GetScanResults sid, Sleep 5}
      \<and> (res = timeout_result \<or> (\<exists>k. res = p k \<and> scan_finished res))"
proof (induction "nat (mw - e)" arbitrary: e n rule: less_induct)
  case less
  show ?case
  proof (cases "e < mw")
    case False
    then have "\<forall>s. poll_loop (quiet t p a m) sid mw 5 e n s = Some (timeout_result, logged [] s)"
      by (subst poll_loop.simps) (simp add: timeout_result_def logged_def)
    then show ?thesis by (intro exI[of _ timeout_result] exI[of _ "[]"]) simp
  next
    case True
    show ?thesis
    proof (cases "scan_finished (p n)")
      case fin: True
      have "\<forall>s. poll_loop (quiet t p a m) sid mw 5 e n s =
              Some (p n, logged [GetScanResults sid] s)"
        using True fin
        by (subst poll_loop.simps)
           (auto simp: get_scan_results_def scan_finished_def await_def logged_def dict_get_def)
      then show ?thesis using fin
        by (intro exI[of _ "p n"] exI[of _ "[GetScanResults sid]"]) auto
    next
      case notfin: False
      have "nat (mw - (e + 5)) < nat (mw - e)" using True by simp
      from less[OF this, of "Suc n"] obtain res pevs where
        run: "\<And>s. poll_loop (quiet t p a m) sid mw 5 (e + 5) (Suc n) s = Some (res, logged pevs s)"
        and evs: "set pevs \<subseteq> {GetScanResults sid, Sleep 5}"
        and res: "res = timeout_result \<or> (\<exists>k. res = p k \<and> scan_finished res)"
        by blast
      have "\<forall>s. poll_loop (quiet t p a m) sid mw 5 e n s =
              Some (res, logged (GetScanResults sid # Sleep 5 # pevs) s)"
        using True notfin
        by (subst poll_loop.simps)
           (auto simp: get_scan_results_def scan_finished_def await_def run logged_def dict_get_def)
      then show ?thesis using evs res
        by (intro exI[of _ res] exI[of _ "GetScanResults sid # Sleep 5 # pevs"]) auto
    qed
  qed
qed

lemma saved_statuses_append [simp]:
  "saved_statuses (xs @ ys) = saved_statuses xs @ saved_statuses ys"
  by (induction xs rule: saved_statuses.induct) auto

lemma saved_status_append [simp]:
  "saved_status (xs @ ys) = saved_status xs @ saved_status ys"
  by (induction xs rule: saved_status.induct) auto

lemma requests_append [simp]:
  "requests (xs @ ys) = requests xs @ requests ys"
  by (induction xs rule: requests.induct) auto

lemma poll_events_not_saved:
  "set pevs \<subseteq> {GetScanResults sid, Sleep iv} \<Longrightarrow>
   saved_statuses pevs = [] \<and> saved_status pevs = [] \<and> requests pevs = pevs"
  by (induction pevs) auto

end
